theory Spec2Isabelle
  imports Main "HOL-Library.Word"
begin

unbundle bit_operations_syntax

section \<open>Data model (include/skydecoder/asterix\_types.h)\<close>

text \<open>
  The C++ structs become datatypes and records.  Several structs share member names
  (\<open>name\<close>, \<open>valid\<close>, \<open>fields\<close>, ...); the selectors below carry a short prefix for
  the struct they belong to: \<open>fld_\<close> for \<open>Field\<close>, \<open>item_\<close> for \<open>DataItem\<close>,
  \<open>rule_\<close> for \<open>ValidationRule\<close>, \<open>cat_\<close> for \<open>AsterixCategory\<close>, \<open>pf_\<close> for
  \<open>ParsedField\<close>, \<open>pi_\<close> for \<open>ParsedDataItem\<close>, \<open>msg_\<close> for \<open>AsterixMessage\<close>,
  \<open>blk_\<close> for \<open>AsterixBlock\<close> and \<open>ctx_\<close> for \<open>ParseContext\<close>.

  Members the decoder never reads, or only copies into its results, are left out:
  the \<open>description\<close>, \<open>lsb\<close> and \<open>enums\<close> of a field, the \<open>definition\<close> of an
  item, the textual part of the category header and the parsing rules.
\<close>

type_synonym byte = "8 word"

datatype FieldType =
    UINT8 | UINT16 | UINT24 | UINT32
  | UINT1 | UINT2 | UINT3 | UINT4 | UINT5 | UINT6 | UINT7 | UINT12 | UINT14
  | INT8 | INT16 | INT24 | INT32
  | BOOL | STRING | BYTES

datatype DataFormat = FIXED | VARIABLE | EXPLICIT | REPETITIVE

datatype Unit =
    NONE | SECONDS | NAUTICAL_MILES | DEGREES | FLIGHT_LEVEL | FEET | KNOTS
  | METERS_PER_SECOND

text \<open>
  \<open>FieldValue\<close> is the \<open>std::variant\<close> of the source, in the order of its
  alternatives.  The signed alternatives hold the bit pattern; \<open>sint\<close> reads it.
\<close>

datatype FieldValue =
    U8 "8 word" | U16 "16 word" | U32 "32 word"
  | I8 "8 word" | I16 "16 word" | I32 "32 word"
  | Bool bool | Str string | Bytes "byte list"

text \<open>
  \<open>bits\<close> is a \<open>uint8_t\<close> in the source; every use promotes it to \<open>int\<close> or
  \<open>size_t\<close> first, so no arithmetic on it wraps and \<open>nat\<close> models it.
\<close>

datatype Field = Field
  (fld_name: string)
  (fld_type: FieldType)
  (bits: nat)
  (fld_unit: Unit)
  (encoding: "string option")
  (fld_condition: "string option")
  (extension_fields: "Field list")

record DataItem =
  item_id :: string
  item_name :: string
  format :: DataFormat
  item_length :: "nat option"
  item_fields :: "Field list"

record ValidationRule =
  rule_field :: string
  rule_type :: string
  rule_condition :: "string option"

record AsterixCategory =
  cat_category :: byte
  uap_items :: "string list"
  cat_data_items :: "string \<rightharpoonup> DataItem"
  validation_rules :: "ValidationRule list"

record ParsedField =
  pf_name :: string
  pf_value :: FieldValue
  pf_unit :: Unit
  pf_valid :: bool
  pf_error_message :: string

record ParsedDataItem =
  pi_id :: string
  pi_name :: string
  pi_fields :: "ParsedField list"
  pi_valid :: bool
  pi_error_message :: string

text \<open>
  \<open>AsterixMessage::length\<close>, \<open>AsterixBlock::category\<close>, \<open>AsterixBlock::length\<close> and
  \<open>AsterixBlock::valid\<close> have no default member initialiser.  A member the decoder
  never assigned holds an indeterminate value: \<open>None\<close>.
\<close>

record AsterixMessage =
  msg_category :: byte
  msg_length :: "16 word option"
  msg_data_items :: "ParsedDataItem list"
  msg_valid :: bool
  msg_error_message :: string

record AsterixBlock =
  blk_category :: "byte option"
  blk_length :: "16 word option"
  blk_valid :: "bool option"
  messages :: "AsterixMessage list"

text \<open>
  \<open>ParseContext\<close> holds a raw pointer \<open>data\<close> and a \<open>size\<close> the constructor takes on
  trust.  The model keeps the whole vector the pointer points into (\<open>ctx_data\<close>) and
  the pointer's offset in it (\<open>ctx_base\<close>), so that a context whose \<open>size\<close> promises
  more bytes than the vector holds can be told from one that stays inside.  The
  \<open>category\<close> pointer is passed to the decoder functions as an argument instead.
  \<open>size_t\<close> values stay far below \<open>2^64\<close> for a buffer that fits in memory: \<open>nat\<close>.
\<close>

record ParseContext =
  ctx_data :: "byte list"
  ctx_base :: nat
  ctx_size :: nat
  position :: nat

text \<open>
  Effects.  A C++ exception is a value \<open>Throw msg\<close>; the context is passed by
  reference, so it keeps what was consumed before the throw and every stateful
  function returns it next to the outcome.  A read outside the vector is undefined
  behaviour: no \<open>try\<close> block catches it, and the model returns \<open>None\<close> for the whole
  computation.
\<close>

datatype 'a outcome = Ok 'a | Throw string

definition has_data :: "ParseContext \<Rightarrow> nat \<Rightarrow> bool" where
  "has_data ctx n = (position ctx + n \<le> ctx_size ctx)"

definition data_at :: "ParseContext \<Rightarrow> nat \<Rightarrow> byte option" where
  "data_at ctx i =
     (if ctx_base ctx + i < length (ctx_data ctx)
      then Some (ctx_data ctx ! (ctx_base ctx + i)) else None)"

definition read_uint8 :: "ParseContext \<Rightarrow> (byte outcome \<times> ParseContext) option" where
  "read_uint8 ctx =
     (if \<not> has_data ctx 1 then Some (Throw ''Insufficient data'', ctx)
      else case data_at ctx (position ctx) of
             None \<Rightarrow> None
           | Some b \<Rightarrow> Some (Ok b, ctx\<lparr>position := position ctx + 1\<rparr>))"

definition read_uint16 :: "ParseContext \<Rightarrow> (16 word outcome \<times> ParseContext) option" where
  "read_uint16 ctx =
     (if \<not> has_data ctx 2 then Some (Throw ''Insufficient data'', ctx)
      else case data_at ctx (position ctx) of
             None \<Rightarrow> None
           | Some hi \<Rightarrow>
              (case data_at ctx (position ctx + 1) of
                 None \<Rightarrow> None
               | Some lo \<Rightarrow>
                   Some (Ok (push_bit 8 (ucast hi) OR ucast lo),
                         ctx\<lparr>position := position ctx + 2\<rparr>)))"

definition read_bytes :: "ParseContext \<Rightarrow> nat \<Rightarrow> (byte list outcome \<times> ParseContext) option" where
  "read_bytes ctx count =
     (if \<not> has_data ctx count then Some (Throw ''Insufficient data'', ctx)
      else if count = 0 \<or> ctx_base ctx + position ctx + count \<le> length (ctx_data ctx)
      then Some (Ok (take count (drop (ctx_base ctx + position ctx) (ctx_data ctx))),
                 ctx\<lparr>position := position ctx + count\<rparr>)
      else None)"

section \<open>Field parser (src/field\_parser.cpp)\<close>

subsection \<open>Bit extraction\<close>

text \<open>
  The loop of \<open>extract_bits\<close> over \<open>i = 0 .. num_bits - 1\<close>, leaving by a throw when
  a bit lies outside the bytes read for the field.
\<close>

fun extract_loop :: "byte list \<Rightarrow> nat \<Rightarrow> nat \<Rightarrow> nat \<Rightarrow> nat list \<Rightarrow> 32 word \<Rightarrow> 32 word outcome" where
  "extract_loop bs byte_offset bit_offset num_bits [] result = Ok result"
| "extract_loop bs byte_offset bit_offset num_bits (i # is) result =
     (let current_byte = byte_offset + (bit_offset + i) div 8;
          current_bit = 7 - (bit_offset + i) mod 8
      in if current_byte \<ge> length bs then Throw ''Bit extraction exceeds data size''
         else extract_loop bs byte_offset bit_offset num_bits is
                (if (bs ! current_byte) AND push_bit current_bit 1 = 0 then result
                 else result OR push_bit (num_bits - 1 - i) 1))"

definition extract_bits :: "byte list \<Rightarrow> nat \<Rightarrow> nat \<Rightarrow> 32 word outcome" where
  "extract_bits bs start_bit num_bits =
     (if num_bits > 32 then Throw ''Cannot extract more than 32 bits''
      else extract_loop bs (start_bit div 8) (start_bit mod 8) num_bits [0..<num_bits] 0)"

definition read_field_bytes :: "Field \<Rightarrow> ParseContext \<Rightarrow> (byte list outcome \<times> ParseContext) option" where
  "read_field_bytes field ctx = read_bytes ctx ((bits field + 7) div 8)"

subsection \<open>Type conversion\<close>

text \<open>
  The bytes of a raw value, most significant first, as the \<open>STRING\<close> and \<open>BYTES\<close>
  cases build them: \<open>(raw_value >> (8 * (num_bytes - 1 - i))) & 0xFF\<close>.  For more
  than 32 bits the source shifts a 32-bit value by 32 or more, which C++ leaves
  undefined and \<open>drop_bit\<close> answers with 0; \<open>parse_field\<close> never gets there, since
  \<open>extract_bits\<close> throws first.
\<close>

definition raw_value_bytes :: "32 word \<Rightarrow> Field \<Rightarrow> byte list" where
  "raw_value_bytes raw_value field =
     (let num_bytes = (bits field + 7) div 8
      in map (\<lambda>i. ucast (drop_bit (8 * (num_bytes - 1 - i)) raw_value)) [0..<num_bytes])"

text \<open>\<open>icao_alphabet\<close> is a \<open>char[]\<close> of 49 elements: 48 characters and the final NUL.\<close>

definition icao_alphabet :: string where
  "icao_alphabet = '' ABCDEFGHIJKLMNOPQRSTUVWXYZ     0123456789      '' @ [CHR 0x00]"

fun char_code_loop :: "byte list \<Rightarrow> nat \<Rightarrow> nat list \<Rightarrow> 8 word \<Rightarrow> 8 word" where
  "char_code_loop bs bit_pos [] char_code = char_code"
| "char_code_loop bs bit_pos (i # is) char_code =
     (let byte_idx = (bit_pos + i) div 8;
          bit_idx = 7 - (bit_pos + i) mod 8
      in char_code_loop bs bit_pos is
           (if (bs ! byte_idx) AND push_bit bit_idx 1 = 0 then char_code
            else char_code OR push_bit (5 - i) 1))"

fun sixbit_loop :: "byte list \<Rightarrow> nat list \<Rightarrow> string \<Rightarrow> string" where
  "sixbit_loop bs [] result = result"
| "sixbit_loop bs (k # ks) result =
     (let char_code = unat (char_code_loop bs (6 * k) [0..<6] 0)
      in if char_code < length icao_alphabet
         then (let c = icao_alphabet ! char_code
               in if c = CHR '' '' \<and> result = [] then sixbit_loop bs ks result
                  else sixbit_loop bs ks (result @ [c]))
         else sixbit_loop bs ks result)"

definition decode_6bit_ascii :: "byte list \<Rightarrow> string" where
  "decode_6bit_ascii bs =
     rev (dropWhile (\<lambda>c. c = CHR '' '')
            (rev (sixbit_loop bs [0..<(length bs * 8) div 6] [])))"

text \<open>\<open>std::to_string\<close> of an unsigned value: its decimal digits.\<close>

function to_string :: "nat \<Rightarrow> string" where
  "to_string n =
     (if n < 10 then [char_of (48 + n)]
      else to_string (n div 10) @ [char_of (48 + n mod 10)])"
  by pat_completeness auto
termination
  by (relation "measure (\<lambda>n. n)") auto

definition convert_raw_value :: "32 word \<Rightarrow> Field \<Rightarrow> FieldValue" where
  "convert_raw_value raw_value field =
     (case fld_type field of
        UINT8 \<Rightarrow> U8 (ucast raw_value)
      | UINT1 \<Rightarrow> U8 (ucast raw_value)
      | UINT2 \<Rightarrow> U8 (ucast raw_value)
      | UINT3 \<Rightarrow> U8 (ucast raw_value)
      | UINT4 \<Rightarrow> U8 (ucast raw_value)
      | UINT5 \<Rightarrow> U8 (ucast raw_value)
      | UINT6 \<Rightarrow> U8 (ucast raw_value)
      | UINT7 \<Rightarrow> U8 (ucast raw_value)
      | UINT16 \<Rightarrow> U16 (ucast raw_value)
      | UINT12 \<Rightarrow> U16 (ucast raw_value)
      | UINT14 \<Rightarrow> U16 (ucast raw_value)
      | UINT24 \<Rightarrow> U32 raw_value
      | UINT32 \<Rightarrow> U32 raw_value
      | INT8 \<Rightarrow>
          (if raw_value AND 0x80 = 0 then I8 (ucast raw_value)
           else I8 (ucast (raw_value OR 0xFFFFFF00)))
      | INT16 \<Rightarrow>
          (if raw_value AND 0x8000 = 0 then I16 (ucast raw_value)
           else I16 (ucast (raw_value OR 0xFFFF0000)))
      | INT24 \<Rightarrow>
          (if raw_value AND 0x800000 = 0 then I32 raw_value
           else I32 (raw_value OR 0xFF000000))
      | INT32 \<Rightarrow> I32 raw_value
      | BOOL \<Rightarrow> Bool (raw_value \<noteq> 0)
      | STRING \<Rightarrow>
          (if encoding field = Some ''6bit_ascii''
           then Str (decode_6bit_ascii (raw_value_bytes raw_value field))
           else Str (to_string (unat raw_value)))
      | BYTES \<Rightarrow> Bytes (raw_value_bytes raw_value field))"

subsection \<open>Conditions\<close>

definition isspace :: "char \<Rightarrow> bool" where
  "isspace c = (c \<in> set [CHR '' '', CHR 0x09, CHR 0x0A, CHR 0x0B, CHR 0x0C, CHR 0x0D])"

definition isdigit :: "char \<Rightarrow> bool" where
  "isdigit c = (48 \<le> (of_char c :: nat) \<and> (of_char c :: nat) \<le> 57)"

fun digits_value :: "string \<Rightarrow> int \<Rightarrow> int" where
  "digits_value [] acc = acc"
| "digits_value (c # cs) acc = digits_value cs (10 * acc + (of_char c - 48))"

text \<open>
  \<open>std::stoi\<close> in base 10: leading white space, an optional sign, then the longest
  run of digits.  It throws \<open>std::invalid_argument\<close> when there is no digit and
  \<open>std::out_of_range\<close> when the value does not fit an \<open>int\<close>; both derive from
  \<open>std::exception\<close>, and the library's \<open>what()\<close> is the function's name.
\<close>

definition stoi :: "string \<Rightarrow> int outcome" where
  "stoi s =
     (let s1 = dropWhile isspace s;
          neg = (case s1 of [] \<Rightarrow> False | c # _ \<Rightarrow> c = CHR ''-'');
          s2 = (case s1 of [] \<Rightarrow> []
                | c # r \<Rightarrow> if c = CHR ''-'' \<or> c = CHR ''+'' then r else s1);
          ds = takeWhile isdigit s2
      in if ds = [] then Throw ''stoi''
         else (let v = (if neg then - digits_value ds 0 else digits_value ds 0)
               in if v < - (2 ^ 31) \<or> 2 ^ 31 \<le> v then Throw ''stoi'' else Ok v))"

text \<open>\<open>condition.find("==")\<close>: the index of the first occurrence, if any.\<close>

fun find_eqeq :: "string \<Rightarrow> nat \<Rightarrow> nat option" where
  "find_eqeq (a # b # cs) i =
     (if a = CHR ''='' \<and> b = CHR ''='' then Some i else find_eqeq (b # cs) (i + 1))"
| "find_eqeq cs i = None"

text \<open>
  The search loop of \<open>evaluate_condition\<close>: the first parsed field of the wanted name
  that holds a \<open>bool\<close> or a \<open>uint8_t\<close> decides; fields of the name with another
  alternative are passed over.
\<close>

fun condition_loop :: "string \<Rightarrow> string \<Rightarrow> ParsedField list \<Rightarrow> bool outcome" where
  "condition_loop field_name expected_value [] = Ok False"
| "condition_loop field_name expected_value (field # rest) =
     (if pf_name field = field_name
      then (case pf_value field of
              Bool field_val \<Rightarrow>
                Ok ((expected_value = ''1'' \<and> field_val) \<or> (expected_value = ''0'' \<and> \<not> field_val))
            | U8 field_val \<Rightarrow>
                (case stoi expected_value of
                   Throw e \<Rightarrow> Throw e
                 | Ok n \<Rightarrow> Ok (uint field_val = n))
            | _ \<Rightarrow> condition_loop field_name expected_value rest)
      else condition_loop field_name expected_value rest)"

definition evaluate_condition :: "string \<Rightarrow> ParsedField list \<Rightarrow> bool outcome" where
  "evaluate_condition cond parsed_fields =
     (case find_eqeq cond 0 of
        None \<Rightarrow> Ok False
      | Some pos \<Rightarrow>
          condition_loop (filter (\<lambda>c. \<not> isspace c) (take pos cond))
            (filter (\<lambda>c. \<not> isspace c) (drop (pos + 2) cond)) parsed_fields)"

subsection \<open>Fields and items\<close>

text \<open>
  \<open>parse_field\<close> catches every exception of its body and records it in the field.
  A default-constructed \<open>FieldValue\<close> holds its first alternative, a zero \<open>uint8_t\<close>.
\<close>

definition parse_field :: "Field \<Rightarrow> ParseContext \<Rightarrow> (ParsedField \<times> ParseContext) option" where
  "parse_field field_def ctx =
     (let result = \<lparr>pf_name = fld_name field_def, pf_value = U8 0,
                     pf_unit = fld_unit field_def, pf_valid = True, pf_error_message = []\<rparr>
      in case read_field_bytes field_def ctx of
           None \<Rightarrow> None
         | Some (Throw e, ctx') \<Rightarrow>
             Some (result\<lparr>pf_valid := False, pf_error_message := e\<rparr>, ctx')
         | Some (Ok field_bytes, ctx') \<Rightarrow>
             (case extract_bits field_bytes 0 (bits field_def) of
                Throw e \<Rightarrow> Some (result\<lparr>pf_valid := False, pf_error_message := e\<rparr>, ctx')
              | Ok raw_value \<Rightarrow>
                  Some (result\<lparr>pf_value := convert_raw_value raw_value field_def,
                               pf_valid := True\<rparr>, ctx')))"

text \<open>The third parameter of \<open>parse_extension_fields\<close> is unused in the source.\<close>

fun parse_extension_fields ::
  "Field list \<Rightarrow> ParseContext \<Rightarrow> (ParsedField list \<times> ParseContext) option" where
  "parse_extension_fields [] ctx = Some ([], ctx)"
| "parse_extension_fields (field_def # rest) ctx =
     (if fld_name field_def = ''spare'' then parse_extension_fields rest ctx
      else case parse_field field_def ctx of
             None \<Rightarrow> None
           | Some (parsed_field, ctx') \<Rightarrow>
               (case parse_extension_fields rest ctx' of
                  None \<Rightarrow> None
                | Some (result, ctx'') \<Rightarrow> Some (parsed_field # result, ctx'')))"

text \<open>
  The \<open>VARIABLE\<close> case of \<open>parse_data_item\<close>: the scan for the first byte whose FX
  bit is 0, reading through the parent context's pointer without moving it.
\<close>

function variable_scan :: "ParseContext \<Rightarrow> nat \<Rightarrow> nat \<Rightarrow> (nat outcome \<times> ParseContext) option" where
  "variable_scan ctx start_position bytes_to_read =
     (if \<not> has_data ctx bytes_to_read
      then Some (Throw ''Insufficient data for variable length field'', ctx)
      else case data_at ctx (start_position + bytes_to_read - 1) of
             None \<Rightarrow> None
           | Some last_byte \<Rightarrow>
               if last_byte AND 1 = 0 then Some (Ok bytes_to_read, ctx)
               else variable_scan ctx start_position (bytes_to_read + 1))"
  by pat_completeness auto
termination
  by (relation "measure (\<lambda>(ctx, s, n). ctx_size ctx + 1 - (position ctx + n))")
     (auto simp: has_data_def)

text \<open>The \<open>switch\<close> on the item's format that sets \<open>bytes_to_read\<close>.\<close>

definition determine_bytes_to_read ::
  "DataItem \<Rightarrow> ParseContext \<Rightarrow> (nat outcome \<times> ParseContext) option" where
  "determine_bytes_to_read item_def ctx =
     (case format item_def of
        FIXED \<Rightarrow>
          (case item_length item_def of
             Some l \<Rightarrow> Some (Ok l, ctx)
           | None \<Rightarrow> Some (Throw ''Fixed format requires length specification'', ctx))
      | EXPLICIT \<Rightarrow>
          (if \<not> has_data ctx 1 then Some (Throw ''Insufficient data for explicit length'', ctx)
           else case read_uint8 ctx of
                  None \<Rightarrow> None
                | Some (Throw e, ctx') \<Rightarrow> Some (Throw e, ctx')
                | Some (Ok b, ctx') \<Rightarrow> Some (Ok (unat b), ctx'))
      | REPETITIVE \<Rightarrow>
          (if \<not> has_data ctx 1 then Some (Throw ''Insufficient data for repetitive length'', ctx)
           else case read_uint8 ctx of
                  None \<Rightarrow> None
                | Some (Throw e, ctx') \<Rightarrow> Some (Throw e, ctx')
                | Some (Ok rep_count, ctx') \<Rightarrow>
                    (case item_length item_def of
                       Some l \<Rightarrow> Some (Ok (unat rep_count * l), ctx')
                     | None \<Rightarrow>
                         Some (Throw ''Repetitive format requires length specification'', ctx')))
      | VARIABLE \<Rightarrow> variable_scan ctx (position ctx) 1)"

text \<open>
  The loop over the declared fields.  It returns \<open>result.fields\<close> as filled so far
  and the message of the exception that left the loop, if one did: only
  \<open>evaluate_condition\<close> can throw here, \<open>parse_field\<close> catches its own.  Each field
  is parsed in a copy of \<open>item_context\<close> positioned at byte \<open>bit_offset / 8\<close>; the
  extension fields are parsed in \<open>item_context\<close> itself.
\<close>

fun parse_fields ::
  "Field list \<Rightarrow> ParseContext \<Rightarrow> nat \<Rightarrow> ParsedField list \<Rightarrow>
     (ParsedField list \<times> string option) option" where
  "parse_fields [] item_context bit_offset acc = Some (acc, None)"
| "parse_fields (field_def # rest) item_context bit_offset acc =
     (if fld_name field_def = ''spare''
      then parse_fields rest item_context (bit_offset + bits field_def) acc
      else case parse_field field_def (item_context\<lparr>position := bit_offset div 8\<rparr>) of
             None \<Rightarrow> None
           | Some (parsed_field, field_context) \<Rightarrow>
               (if fld_condition field_def \<noteq> None \<and> extension_fields field_def \<noteq> []
                then (case evaluate_condition (the (fld_condition field_def))
                             (acc @ [parsed_field]) of
                        Throw e \<Rightarrow> Some (acc @ [parsed_field], Some e)
                      | Ok False \<Rightarrow>
                          parse_fields rest item_context (bit_offset + bits field_def)
                            (acc @ [parsed_field])
                      | Ok True \<Rightarrow>
                          (case parse_extension_fields (extension_fields field_def)
                                  item_context of
                             None \<Rightarrow> None
                           | Some (ext, item_context') \<Rightarrow>
                               parse_fields rest item_context' (bit_offset + bits field_def)
                                 (acc @ [parsed_field] @ ext)))
                else parse_fields rest item_context (bit_offset + bits field_def)
                       (acc @ [parsed_field])))"

definition parse_data_item ::
  "DataItem \<Rightarrow> ParseContext \<Rightarrow> (ParsedDataItem \<times> ParseContext) option" where
  "parse_data_item item_def ctx =
     (let result = \<lparr>pi_id = item_id item_def, pi_name = item_name item_def,
                     pi_fields = [], pi_valid = True, pi_error_message = []\<rparr>;
          start_position = position ctx
      in case determine_bytes_to_read item_def ctx of
           None \<Rightarrow> None
         | Some (Throw e, ctx') \<Rightarrow>
             Some (result\<lparr>pi_valid := False, pi_error_message := e\<rparr>, ctx')
         | Some (Ok bytes_to_read, ctx') \<Rightarrow>
             (case parse_fields (item_fields item_def)
                     \<lparr>ctx_data = ctx_data ctx', ctx_base = ctx_base ctx' + start_position,
                      ctx_size = bytes_to_read, position = 0\<rparr> 0 [] of
                None \<Rightarrow> None
              | Some (parsed, Some e) \<Rightarrow>
                  Some (result\<lparr>pi_fields := parsed, pi_valid := False,
                               pi_error_message := e\<rparr>, ctx')
              | Some (parsed, None) \<Rightarrow>
                  Some (result\<lparr>pi_fields := parsed, pi_valid := True\<rparr>,
                        ctx'\<lparr>position := start_position + bytes_to_read\<rparr>)))"

section \<open>Decoder (AsterixDecoder)\<close>

text \<open>
  The decoder's state: the registry \<open>categories_\<close> and the \<open>strict_validation_\<close>
  flag.  \<open>debug_mode_\<close> only switches logging.
\<close>

record AsterixDecoder =
  categories :: "byte \<rightharpoonup> AsterixCategory"
  strict_validation :: bool

text \<open>
  The \<open>do ... while (fspec.size() < 16)\<close> loop of \<open>parse_field_specification\<close>.
\<close>

function fspec_loop :: "ParseContext \<Rightarrow> byte list \<Rightarrow> (byte list outcome \<times> ParseContext) option" where
  "fspec_loop ctx fspec =
     (if \<not> has_data ctx 1 then Some (Throw ''Insufficient data for FSPEC'', ctx)
      else case read_uint8 ctx of
             None \<Rightarrow> None
           | Some (Throw e, ctx') \<Rightarrow> Some (Throw e, ctx')
           | Some (Ok fspec_byte, ctx') \<Rightarrow>
               if fspec_byte AND 1 = 0 then Some (Ok (fspec @ [fspec_byte]), ctx')
               else if length (fspec @ [fspec_byte]) < 16
                    then fspec_loop ctx' (fspec @ [fspec_byte])
                    else Some (Ok (fspec @ [fspec_byte]), ctx'))"
  by pat_completeness auto
termination
  by (relation "measure (\<lambda>(ctx, fspec). 16 - length fspec)") auto

definition parse_field_specification ::
  "ParseContext \<Rightarrow> (byte list outcome \<times> ParseContext) option" where
  "parse_field_specification ctx = fspec_loop ctx []"

text \<open>
  \<open>parse_uap_items\<close>: the inner loop over the bits of one FSPEC byte (its \<open>break\<close>
  leaves only this loop), and the outer loop over the bytes, which checks 8 bits of
  the last byte and 7 of every other.
\<close>

fun uap_bits :: "byte \<Rightarrow> nat list \<Rightarrow> string list \<Rightarrow> nat \<Rightarrow> string list \<Rightarrow> string list \<times> nat" where
  "uap_bits fspec_byte [] uap bit_index present_items = (present_items, bit_index)"
| "uap_bits fspec_byte (b # bs) uap bit_index present_items =
     (if bit_index \<ge> length uap then (present_items, bit_index)
      else uap_bits fspec_byte bs uap (bit_index + 1)
             (if fspec_byte AND push_bit b 1 = 0 then present_items
              else present_items @ [uap ! bit_index]))"

fun uap_bytes :: "byte list \<Rightarrow> string list \<Rightarrow> nat \<Rightarrow> string list \<Rightarrow> string list" where
  "uap_bytes [] uap bit_index present_items = present_items"
| "uap_bytes [fspec_byte] uap bit_index present_items =
     fst (uap_bits fspec_byte [7, 6, 5, 4, 3, 2, 1, 0] uap bit_index present_items)"
| "uap_bytes (fspec_byte # rest) uap bit_index present_items =
     (case uap_bits fspec_byte [7, 6, 5, 4, 3, 2, 1] uap bit_index present_items of
        (present_items', bit_index') \<Rightarrow> uap_bytes rest uap bit_index' present_items')"

definition parse_uap_items :: "byte list \<Rightarrow> string list \<Rightarrow> string list" where
  "parse_uap_items fspec uap = uap_bytes fspec uap 0 []"

text \<open>The loop of \<open>decode_message_internal\<close> over the items the FSPEC selects.\<close>

fun decode_items ::
  "AsterixCategory \<Rightarrow> string list \<Rightarrow> ParseContext \<Rightarrow> ParsedDataItem list \<Rightarrow>
     (ParsedDataItem list \<times> ParseContext) option" where
  "decode_items cat [] ctx acc = Some (acc, ctx)"
| "decode_items cat (present_item # rest) ctx acc =
     (if present_item = ''spare'' then decode_items cat rest ctx acc
      else case cat_data_items cat present_item of
             None \<Rightarrow> decode_items cat rest ctx acc
           | Some item_def \<Rightarrow>
               (case parse_data_item item_def ctx of
                  None \<Rightarrow> None
                | Some (parsed_item, ctx') \<Rightarrow>
                    decode_items cat rest ctx' (acc @ [parsed_item])))"

definition decode_message_internal ::
  "AsterixCategory \<Rightarrow> ParseContext \<Rightarrow> (AsterixMessage \<times> ParseContext) option" where
  "decode_message_internal cat ctx =
     (let message = \<lparr>msg_category = cat_category cat, msg_length = None,
                      msg_data_items = [], msg_valid = True, msg_error_message = []\<rparr>
      in case parse_field_specification ctx of
           None \<Rightarrow> None
         | Some (Throw e, ctx') \<Rightarrow>
             Some (message\<lparr>msg_valid := False, msg_error_message := e\<rparr>, ctx')
         | Some (Ok fspec, ctx') \<Rightarrow>
             (case decode_items cat (parse_uap_items fspec (uap_items cat)) ctx' [] of
                None \<Rightarrow> None
              | Some (parsed, ctx'') \<Rightarrow>
                  Some (message\<lparr>msg_data_items := parsed, msg_valid := True\<rparr>, ctx'')))"

text \<open>
  The block loop of \<open>decode_block\<close> ends because every message consumes at least
  its first FSPEC byte.  The lemmas below establish that before the loop is defined:
  no function of the parser changes the buffer or the size of the context it is
  given, and none leaves the position behind where it found it.
\<close>

declare variable_scan.simps [simp del] fspec_loop.simps [simp del] to_string.simps [simp del]

definition same_buffer :: "ParseContext \<Rightarrow> ParseContext \<Rightarrow> bool" where
  "same_buffer c c' =
     (ctx_data c' = ctx_data c \<and> ctx_base c' = ctx_base c \<and> ctx_size c' = ctx_size c)"

lemma read_uint8_frame:
  assumes "read_uint8 ctx = Some (r, ctx')"
  shows "same_buffer ctx ctx' \<and> position ctx \<le> position ctx' \<and>
         (case r of Ok b \<Rightarrow> position ctx' = position ctx + 1 | Throw e \<Rightarrow> ctx' = ctx)"
  using assms
  by (auto simp: read_uint8_def same_buffer_def split: if_splits option.splits)

lemma variable_scan_frame:
  "variable_scan ctx s n = Some (r, ctx') \<Longrightarrow> ctx' = ctx"
proof (induction ctx s n rule: variable_scan.induct)
  case (1 ctx s n)
  from "1.prems" "1.IH" show ?case
    by (subst (asm) variable_scan.simps) (auto split: if_splits option.splits)
qed

lemma determine_bytes_to_read_frame:
  assumes "determine_bytes_to_read item_def ctx = Some (r, ctx')"
  shows "same_buffer ctx ctx' \<and> position ctx \<le> position ctx'"
proof (cases "format item_def")
  case FIXED
  with assms show ?thesis
    by (auto simp: determine_bytes_to_read_def same_buffer_def split: option.splits)
next
  case VARIABLE
  with assms have "ctx' = ctx"
    by (auto simp: determine_bytes_to_read_def dest: variable_scan_frame)
  then show ?thesis by (simp add: same_buffer_def)
next
  case EXPLICIT
  with assms show ?thesis
    by (auto simp: determine_bytes_to_read_def same_buffer_def
             split: if_splits option.splits outcome.splits dest!: read_uint8_frame)
next
  case REPETITIVE
  with assms show ?thesis
    by (auto simp: determine_bytes_to_read_def same_buffer_def
             split: if_splits option.splits outcome.splits dest!: read_uint8_frame)
qed

lemma parse_data_item_frame:
  assumes "parse_data_item item_def ctx = Some (it, ctx')"
  shows "same_buffer ctx ctx' \<and> position ctx \<le> position ctx'"
  using assms
  by (auto simp: parse_data_item_def Let_def same_buffer_def
           split: option.splits outcome.splits prod.splits
           dest!: determine_bytes_to_read_frame)

lemma decode_items_frame:
  "decode_items cat ids ctx acc = Some (its, ctx') \<Longrightarrow>
     same_buffer ctx ctx' \<and> position ctx \<le> position ctx'"
proof (induction ids arbitrary: ctx acc)
  case Nil
  then show ?case by (simp add: same_buffer_def)
next
  case (Cons i ids)
  show ?case
  proof (cases "i = ''spare'' \<or> cat_data_items cat i = None")
    case True
    with Cons.prems have "decode_items cat ids ctx acc = Some (its, ctx')"
      by (auto split: if_splits)
    then show ?thesis by (rule Cons.IH)
  next
    case False
    then obtain d where d: "cat_data_items cat i = Some d" and ns: "i \<noteq> ''spare''" by auto
    with Cons.prems obtain it c1 where
      p: "parse_data_item d ctx = Some (it, c1)" and
      r: "decode_items cat ids c1 (acc @ [it]) = Some (its, ctx')"
      by (auto split: option.splits)
    from parse_data_item_frame [OF p] Cons.IH [OF r] show ?thesis
      by (auto simp: same_buffer_def)
  qed
qed

lemma fspec_loop_frame:
  "fspec_loop ctx fspec = Some (r, ctx') \<Longrightarrow>
     same_buffer ctx ctx' \<and> position ctx \<le> position ctx' \<and>
     (has_data ctx 1 \<longrightarrow> position ctx < position ctx')"
proof (induction ctx fspec arbitrary: r ctx' rule: fspec_loop.induct)
  case (1 ctx fspec)
  show ?case
  proof (cases "has_data ctx 1")
    case False
    with "1.prems" show ?thesis
      by (subst (asm) fspec_loop.simps) (simp add: same_buffer_def)
  next
    case True
    with "1.prems" obtain o1 c1 where rd: "read_uint8 ctx = Some (o1, c1)"
      by (subst (asm) fspec_loop.simps) (auto split: option.splits)
    show ?thesis
    proof (cases o1)
      case (Throw e)
      with rd True have False
        by (auto simp: read_uint8_def split: if_splits option.splits)
      then show ?thesis ..
    next
      case (Ok b)
      from read_uint8_frame [OF rd] Ok
      have f: "same_buffer ctx c1" "position c1 = position ctx + 1" by auto
      show ?thesis
      proof (cases "b AND 1 \<noteq> 0 \<and> length (fspec @ [b]) < 16")
        case False
        with "1.prems" True rd Ok have "ctx' = c1"
          by (subst (asm) fspec_loop.simps) (auto split: if_splits)
        with f True show ?thesis by simp
      next
        case rec: True
        with "1.prems" True rd Ok have rc: "fspec_loop c1 (fspec @ [b]) = Some (r, ctx')"
          by (subst (asm) fspec_loop.simps) (auto split: if_splits)
        from True have nn: "\<not> \<not> has_data ctx 1" by simp
        from rec have r1: "b AND 1 \<noteq> 0" and r2: "length (fspec @ [b]) < 16" by auto
        from "1.IH" [OF nn rd refl Ok r1 r2 rc]
        have "same_buffer c1 ctx' \<and> position c1 \<le> position ctx'" by auto
        with f show ?thesis by (auto simp: same_buffer_def)
      qed
    qed
  qed
qed

lemma decode_message_internal_frame:
  assumes "decode_message_internal cat ctx = Some (m, ctx')" and "has_data ctx 1"
  shows "same_buffer ctx ctx' \<and> position ctx < position ctx'"
proof -
  from assms(1) obtain o1 c1 where
    fs: "parse_field_specification ctx = Some (o1, c1)"
    by (auto simp: decode_message_internal_def Let_def split: option.splits)
  from fspec_loop_frame [OF fs [unfolded parse_field_specification_def]] assms(2)
  have f: "same_buffer ctx c1" "position ctx < position c1" by auto
  show ?thesis
  proof (cases o1)
    case (Throw e)
    with assms(1) fs have "ctx' = c1"
      by (auto simp: decode_message_internal_def Let_def)
    with f show ?thesis by simp
  next
    case (Ok fspec)
    with assms(1) fs obtain its where
      "decode_items cat (parse_uap_items fspec (uap_items cat)) c1 [] = Some (its, ctx')"
      by (auto simp: decode_message_internal_def Let_def split: option.splits)
    from decode_items_frame [OF this] f show ?thesis
      by (auto simp: same_buffer_def)
  qed
qed

text \<open>
  The \<open>while (context.position < block.length && context.has_data(1))\<close> loop of
  \<open>decode_block\<close>, with \<open>block.messages\<close> as accumulator.
\<close>

function message_loop ::
  "AsterixCategory \<Rightarrow> 16 word \<Rightarrow> ParseContext \<Rightarrow> AsterixMessage list \<Rightarrow>
     AsterixMessage list option" where
  "message_loop cat block_length ctx msgs =
     (if position ctx < unat block_length \<and> has_data ctx 1
      then case decode_message_internal cat ctx of
             None \<Rightarrow> None
           | Some (message, ctx') \<Rightarrow> message_loop cat block_length ctx' (msgs @ [message])
      else Some msgs)"
  by pat_completeness auto
termination
proof (relation "measure (\<lambda>(cat, len, ctx, msgs). ctx_size ctx - position ctx)")
  show "wf (measure (\<lambda>(cat, len, ctx, msgs). ctx_size ctx - position ctx))" by simp
next
  fix cat :: AsterixCategory and block_length :: "16 word" and ctx msgs x2 x y
  assume a: "position ctx < unat block_length \<and> has_data ctx 1"
    and d: "decode_message_internal cat ctx = Some x2" and x: "(x, y) = x2"
  from d x have "decode_message_internal cat ctx = Some (x, y)" by simp
  from decode_message_internal_frame [OF this] a
  have "same_buffer ctx y" "position ctx < position y" by auto
  with a show "((cat, block_length, y, msgs @ [x]), cat, block_length, ctx, msgs)
      \<in> measure (\<lambda>(cat, len, ctx, msgs). ctx_size ctx - position ctx)"
    by (auto simp: same_buffer_def has_data_def)
qed

declare message_loop.simps [simp del]

text \<open>
  \<open>decode_block\<close>.  The \<open>try\<close> block covers the header reads, the registry lookup
  and the loop; its handler only logs, so an exception leaves the block as filled so
  far.  \<open>block.valid\<close> is assigned on the short-input path only.
\<close>

definition decode_block :: "AsterixDecoder \<Rightarrow> byte list \<Rightarrow> AsterixBlock option" where
  "decode_block dec bs =
     (let block = \<lparr>blk_category = None, blk_length = None, blk_valid = None, messages = []\<rparr>
      in if length bs < 3 then Some (block\<lparr>blk_valid := Some False\<rparr>)
         else case read_uint8 \<lparr>ctx_data = bs, ctx_base = 0, ctx_size = length bs, position = 0\<rparr> of
                None \<Rightarrow> None
              | Some (Throw e, c1) \<Rightarrow> Some block
              | Some (Ok category, c1) \<Rightarrow>
                  (case read_uint16 c1 of
                     None \<Rightarrow> None
                   | Some (Throw e, c2) \<Rightarrow> Some (block\<lparr>blk_category := Some category\<rparr>)
                   | Some (Ok len, c2) \<Rightarrow>
                       (case categories dec category of
                          None \<Rightarrow>
                            Some (block\<lparr>blk_category := Some category, blk_length := Some len\<rparr>)
                        | Some cat \<Rightarrow>
                            (case message_loop cat len c2 [] of
                               None \<Rightarrow> None
                             | Some msgs \<Rightarrow>
                                 Some (block\<lparr>blk_category := Some category,
                                             blk_length := Some len, messages := msgs\<rparr>)))))"

subsection \<open>Validation\<close>

fun mandatory_loop :: "bool \<Rightarrow> AsterixMessage \<Rightarrow> ValidationRule list \<Rightarrow> bool" where
  "mandatory_loop strict message [] = True"
| "mandatory_loop strict message (rule # rest) =
     (if rule_type rule = ''mandatory''
      then (if list_ex (\<lambda>item. pi_id item = rule_field rule) (msg_data_items message)
            then mandatory_loop strict message rest
            else if strict then False else mandatory_loop strict message rest)
      else mandatory_loop strict message rest)"

definition validate_mandatory_fields :: "bool \<Rightarrow> AsterixMessage \<Rightarrow> AsterixCategory \<Rightarrow> bool" where
  "validate_mandatory_fields strict message cat =
     mandatory_loop strict message (validation_rules cat)"

text \<open>
  The loop of \<open>validate_conditional_fields\<close>: the body of its \<open>if\<close> holds a TODO
  comment and no statement.
\<close>

fun conditional_loop :: "AsterixMessage \<Rightarrow> ValidationRule list \<Rightarrow> bool" where
  "conditional_loop message [] = True"
| "conditional_loop message (rule # rest) =
     (if rule_type rule = ''conditional'' \<and> rule_condition rule \<noteq> None
      then conditional_loop message rest
      else conditional_loop message rest)"

definition validate_conditional_fields :: "AsterixMessage \<Rightarrow> AsterixCategory \<Rightarrow> bool" where
  "validate_conditional_fields message cat = conditional_loop message (validation_rules cat)"

definition validate_message :: "AsterixDecoder \<Rightarrow> AsterixMessage \<Rightarrow> bool" where
  "validate_message dec message =
     (case categories dec (msg_category message) of
        None \<Rightarrow> False
      | Some cat \<Rightarrow>
          if \<not> validate_mandatory_fields (strict_validation dec) message cat then False
          else if \<not> validate_conditional_fields message cat then False
          else msg_valid message)"

section \<open>The CAT002 category (data/asterix\_categories/cat02.xml)\<close>

text \<open>
  The category the repository ships, as a value of \<open>AsterixCategory\<close>: the UAP, the
  data items and the validation rules.  The file is read the way \<open>XmlParser\<close> reads
  it: an item's fields are the \<open>field\<close> elements directly under its \<open>structure\<close>
  element, and an \<open>extension\<close> element gives its condition and its fields to the
  item's first field named \<open>FX\<close>.  Every type and format name stands for the
  enumerator of that name, also the names \<open>XmlParser\<close> itself does not know yet
  (\<open>uint5\<close>, \<open>uint7\<close>, \<open>int8\<close>, \<open>repetitive\<close>); reading the file is not part of the
  decoder.  The items \<open>I002/SP\<close> and \<open>I002/RE\<close> declare byte fields with no \<open>bits\<close>
  attribute, which leaves \<open>Field::bits\<close> without a value; they are not entered, and no
  theorem below selects them.
\<close>

definition plain_field :: "string \<Rightarrow> FieldType \<Rightarrow> nat \<Rightarrow> Unit \<Rightarrow> Field" where
  "plain_field n t b u = Field n t b u None None []"

definition i002_010 :: DataItem where
  "i002_010 = \<lparr>item_id = ''I002/010'', item_name = ''Data Source Identifier'',
     format = FIXED, item_length = Some 2,
     item_fields = [plain_field ''SAC'' UINT8 8 NONE, plain_field ''SIC'' UINT8 8 NONE]\<rparr>"

definition i002_000 :: DataItem where
  "i002_000 = \<lparr>item_id = ''I002/000'', item_name = ''Message Type'',
     format = FIXED, item_length = Some 1,
     item_fields = [plain_field ''MESSAGE_TYPE'' UINT8 8 NONE]\<rparr>"

definition i002_020 :: DataItem where
  "i002_020 = \<lparr>item_id = ''I002/020'', item_name = ''Sector Number'',
     format = FIXED, item_length = Some 1,
     item_fields = [plain_field ''SECTOR'' UINT8 8 DEGREES]\<rparr>"

definition i002_030 :: DataItem where
  "i002_030 = \<lparr>item_id = ''I002/030'', item_name = ''Time of Day'',
     format = FIXED, item_length = Some 3,
     item_fields = [plain_field ''ToD'' UINT24 24 SECONDS]\<rparr>"

definition i002_041 :: DataItem where
  "i002_041 = \<lparr>item_id = ''I002/041'', item_name = ''Antenna Rotation Period'',
     format = FIXED, item_length = Some 2,
     item_fields = [plain_field ''ARP'' UINT16 16 SECONDS]\<rparr>"

definition i002_050 :: DataItem where
  "i002_050 = \<lparr>item_id = ''I002/050'', item_name = ''Station Configuration Status'',
     format = VARIABLE, item_length = None,
     item_fields = [plain_field ''FX'' BOOL 1 NONE]\<rparr>"

definition i002_060 :: DataItem where
  "i002_060 = \<lparr>item_id = ''I002/060'', item_name = ''Station Processing Mode'',
     format = VARIABLE, item_length = None,
     item_fields = [plain_field ''FX'' BOOL 1 NONE]\<rparr>"

definition i002_070 :: DataItem where
  "i002_070 = \<lparr>item_id = ''I002/070'', item_name = ''Plot Count Values'',
     format = REPETITIVE, item_length = None,
     item_fields = [plain_field ''REP'' UINT8 8 NONE]\<rparr>"

definition i002_080 :: DataItem where
  "i002_080 = \<lparr>item_id = ''I002/080'', item_name = ''Warning/Error Conditions'',
     format = VARIABLE, item_length = None,
     item_fields =
       [plain_field ''WE_VALUE'' UINT7 7 NONE,
        Field ''FX'' BOOL 1 NONE None (Some ''FX==1'')
          [plain_field ''WE_VALUE2'' UINT7 7 NONE, plain_field ''FX2'' BOOL 1 NONE]]\<rparr>"

definition i002_090 :: DataItem where
  "i002_090 = \<lparr>item_id = ''I002/090'', item_name = ''Collimation Error'',
     format = FIXED, item_length = Some 2,
     item_fields = [plain_field ''RANGE_ERROR'' INT8 8 NAUTICAL_MILES,
                    plain_field ''AZIMUTH_ERROR'' INT8 8 DEGREES]\<rparr>"

definition i002_100 :: DataItem where
  "i002_100 = \<lparr>item_id = ''I002/100'', item_name = ''Dynamic Window - Type 1'',
     format = FIXED, item_length = Some 8,
     item_fields = [plain_field ''RHO_START'' UINT16 16 NAUTICAL_MILES,
                    plain_field ''RHO_END'' UINT16 16 NAUTICAL_MILES,
                    plain_field ''THETA_START'' UINT16 16 DEGREES,
                    plain_field ''THETA_END'' UINT16 16 DEGREES]\<rparr>"

definition cat002 :: AsterixCategory where
  "cat002 = \<lparr>cat_category = 2,
     uap_items = [''I002/010'', ''I002/000'', ''I002/020'', ''I002/030'', ''I002/041'',
                  ''I002/050'', ''I002/060'', ''spare'', ''I002/070'', ''I002/100'',
                  ''I002/090'', ''I002/080'', ''spare'', ''I002/SP'', ''I002/RE''],
     cat_data_items = map_of
       [(''I002/010'', i002_010), (''I002/000'', i002_000), (''I002/020'', i002_020),
        (''I002/030'', i002_030), (''I002/041'', i002_041), (''I002/050'', i002_050),
        (''I002/060'', i002_060), (''I002/070'', i002_070), (''I002/080'', i002_080),
        (''I002/090'', i002_090), (''I002/100'', i002_100)],
     validation_rules =
       [\<lparr>rule_field = ''I002/010'', rule_type = ''mandatory'', rule_condition = None\<rparr>,
        \<lparr>rule_field = ''I002/000'', rule_type = ''mandatory'', rule_condition = None\<rparr>,
        \<lparr>rule_field = ''I002/020'', rule_type = ''conditional'',
         rule_condition = Some ''message_type == 2''\<rparr>,
        \<lparr>rule_field = ''I002/100'', rule_type = ''conditional'',
         rule_condition = Some ''message_type == 8''\<rparr>,
        \<lparr>rule_field = ''I002/030'', rule_type = ''optional'', rule_condition = None\<rparr>,
        \<lparr>rule_field = ''I002/041'', rule_type = ''conditional'',
         rule_condition = Some ''message_type == 1 || message_type == 2 && sector == 0''\<rparr>,
        \<lparr>rule_field = ''I002/070'', rule_type = ''conditional'',
         rule_condition = Some ''message_type == 1 || message_type == 2 && sector == 0''\<rparr>,
        \<lparr>rule_field = ''I002/090'', rule_type = ''conditional'',
         rule_condition = Some ''message_type == 1 || message_type == 2 && sector == 0''\<rparr>]\<rparr>"

definition cat002_decoder :: "bool \<Rightarrow> AsterixDecoder" where
  "cat002_decoder strict = \<lparr>categories = [2 \<mapsto> cat002], strict_validation = strict\<rparr>"

text \<open>A context over a whole vector, as \<open>decode_block\<close> and \<open>decode_message\<close> build it.\<close>

definition ctx_of :: "byte list \<Rightarrow> ParseContext" where
  "ctx_of bs = \<lparr>ctx_data = bs, ctx_base = 0, ctx_size = length bs, position = 0\<rparr>"

text \<open>Results with nothing to report: a valid field, item and CAT002 record.\<close>

definition valid_field :: "string \<Rightarrow> FieldValue \<Rightarrow> Unit \<Rightarrow> ParsedField" where
  "valid_field n v u =
     \<lparr>pf_name = n, pf_value = v, pf_unit = u, pf_valid = True, pf_error_message = []\<rparr>"

definition valid_item :: "string \<Rightarrow> string \<Rightarrow> ParsedField list \<Rightarrow> ParsedDataItem" where
  "valid_item i n fs =
     \<lparr>pi_id = i, pi_name = n, pi_fields = fs, pi_valid = True, pi_error_message = []\<rparr>"

definition valid_record :: "ParsedDataItem list \<Rightarrow> AsterixMessage" where
  "valid_record its =
     \<lparr>msg_category = 2, msg_length = None, msg_data_items = its, msg_valid = True,
      msg_error_message = []\<rparr>"

section \<open>The end-to-end scenario E1\<close>

definition e1_input :: "byte list" where
  "e1_input = [0x02, 0x00, 0x16, 0xF0, 0x00, 0x10, 0x01, 0x00, 0x12, 0x34, 0x56,
               0x78, 0x9A, 0xBC, 0x00, 0x00, 0x00, 0x00, 0x00, 0x00, 0x00, 0x00]"

text \<open>
  C1.  With CAT002 registered, \<open>decode_block\<close> on the 22 bytes of E1 returns five
  records.  The first holds I002/010 (SAC 0x00, SIC 0x10), I002/000 (0x01), I002/020
  (0x00) and I002/030 (0x123456 = 1193046); the second holds I002/000 (0x9A),
  I002/020 (0xBC), I002/030 (0) and I002/041 (0); the last three hold no item, and
  each of them is decoded from the single FSPEC byte 0x00 (the record at offset 19
  leaves the cursor at 20).
\<close>

theorem decode_block_e1:
  "map_option messages (decode_block (cat002_decoder False) e1_input) =
     Some [valid_record
             [valid_item ''I002/010'' ''Data Source Identifier''
                [valid_field ''SAC'' (U8 0x00) NONE, valid_field ''SIC'' (U8 0x10) NONE],
              valid_item ''I002/000'' ''Message Type''
                [valid_field ''MESSAGE_TYPE'' (U8 0x01) NONE],
              valid_item ''I002/020'' ''Sector Number''
                [valid_field ''SECTOR'' (U8 0x00) DEGREES],
              valid_item ''I002/030'' ''Time of Day''
                [valid_field ''ToD'' (U32 1193046) SECONDS]],
           valid_record
             [valid_item ''I002/000'' ''Message Type''
                [valid_field ''MESSAGE_TYPE'' (U8 0x9A) NONE],
              valid_item ''I002/020'' ''Sector Number''
                [valid_field ''SECTOR'' (U8 0xBC) DEGREES],
              valid_item ''I002/030'' ''Time of Day''
                [valid_field ''ToD'' (U32 0) SECONDS],
              valid_item ''I002/041'' ''Antenna Rotation Period''
                [valid_field ''ARP'' (U16 0) SECONDS]],
           valid_record [], valid_record [], valid_record []]
   \<and> decode_message_internal cat002 ((ctx_of e1_input)\<lparr>position := 19\<rparr>) =
       Some (valid_record [], (ctx_of e1_input)\<lparr>position := 20\<rparr>)"
  by code_simp

section \<open>Variable items and the running bit offset\<close>

text \<open>
  C2.  The specification's scenario E3: the item I002/080 (a 7-bit value and a 1-bit
  FX that gates an extension of the same shape) on the bytes 0x03 0x02 should give
  two values 0x01 with the extension present, every field being extracted at the
  bit offset the fields before it add up to.  The code does consume the two bytes,
  but it extracts every field from the first bit of the byte at \<open>bit_offset / 8\<close>:
  FX is read from the most significant bit of 0x03 instead of the bit at offset 7,
  so FX is false and the extension is never parsed.
\<close>

theorem parse_data_item_fx_chain:
  "parse_data_item i002_080 (ctx_of [0x03, 0x02]) =
     Some (valid_item ''I002/080'' ''Warning/Error Conditions''
             [valid_field ''WE_VALUE'' (U8 0x01) NONE, valid_field ''FX'' (Bool False) NONE],
           (ctx_of [0x03, 0x02])\<lparr>position := 2\<rparr>)"
  by code_simp

section \<open>Sign extension\<close>

text \<open>
  The value a signed alternative stands for, the width the source's \<open>switch\<close> tests
  the sign at for each signed type, and the specification's reading of sign
  extension from \<open>n\<close> bits: the raw value OR'ed with \<open>~((1 << n) - 1)\<close>, read as two's
  complement.
\<close>

definition signed_value :: "FieldValue \<Rightarrow> int option" where
  "signed_value v =
     (case v of I8 w \<Rightarrow> Some (sint w) | I16 w \<Rightarrow> Some (sint w) | I32 w \<Rightarrow> Some (sint w)
      | _ \<Rightarrow> None)"

definition type_width :: "FieldType \<Rightarrow> nat option" where
  "type_width t =
     (case t of INT8 \<Rightarrow> Some 8 | INT16 \<Rightarrow> Some 16 | INT24 \<Rightarrow> Some 24 | INT32 \<Rightarrow> Some 32
      | _ \<Rightarrow> None)"

definition sign_extend_from :: "nat \<Rightarrow> 32 word \<Rightarrow> int" where
  "sign_extend_from n raw = sint (raw OR NOT (mask n))"

lemma sint_or_not_mask:
  fixes raw :: "32 word"
  assumes "bit raw (w - 1)" "0 < w" "w \<le> 32"
  shows "sint (raw OR NOT (mask w)) = signed_take_bit (w - 1) (uint raw)"
proof (cases "w = 32")
  case True
  have "NOT (mask 32 :: 32 word) = 0"
    by (simp add: mask_eq_decr_exp)
  with True show ?thesis
    by (simp add: sint_uint)
next
  case False
  with assms(3) have w: "w - 1 < 31" "w < 32" by simp_all
  show ?thesis
  proof (rule bit_eqI)
    fix n
    show "bit (sint (raw OR NOT (mask w))) n = bit (signed_take_bit (w - 1) (uint raw)) n"
    proof (cases "n < w - 1")
      case True
      with assms w show ?thesis
        by (auto simp: bit_simps min_def)
    next
      case False
      then have m: "min (w - 1) n = w - 1" by simp
      show ?thesis
      proof (cases "n < w")
        case True
        with False have "n = w - 1" by simp
        with assms w show ?thesis
          by (simp add: bit_simps min_def)
      next
        case nw: False
        with w have "\<not> min 31 n < w" by (auto simp: min_def)
        moreover have "min 31 n < 32" by simp
        ultimately show ?thesis
          using assms(1) m by (simp add: bit_simps bit_sint_iff min_def)
      qed
    qed
  qed
qed

lemma signed_take_bit_uint_self:
  fixes raw :: "32 word"
  assumes "\<not> bit raw (w - 1)" "uint raw < 2 ^ w" "0 < w"
  shows "signed_take_bit (w - 1) (uint raw) = uint raw"
proof -
  obtain m where w: "w = Suc m" using assms(3) by (cases w) auto
  from assms(2) have "take_bit (Suc m) (uint raw) = uint raw"
    by (simp add: w take_bit_int_eq_self)
  moreover from assms(1) have "\<not> bit (uint raw) m"
    by (simp add: w bit_uint_iff)
  ultimately have "take_bit m (uint raw) = uint raw"
    by (simp add: take_bit_Suc_from_most)
  then have "uint raw < 2 ^ m"
    by (metis take_bit_int_less_exp)
  moreover have "- (2 ^ m) \<le> uint raw"
  proof -
    have "- (2 ^ m) \<le> (0 :: int)" by simp
    also have "0 \<le> uint raw" by simp
    finally show ?thesis .
  qed
  ultimately have "signed_take_bit m (uint raw) = uint raw"
    by (rule signed_take_bit_int_eq_self [rotated])
  then show ?thesis by (simp add: w)
qed

lemma sint_ucast8: "sint (ucast (raw :: 32 word) :: 8 word) = signed_take_bit 7 (uint raw)"
  by (simp add: sint_uint unsigned_ucast_eq signed_take_bit_take_bit)

lemma sint_ucast16: "sint (ucast (raw :: 32 word) :: 16 word) = signed_take_bit 15 (uint raw)"
  by (simp add: sint_uint unsigned_ucast_eq signed_take_bit_take_bit)

lemma sign_constants:
  "(0xFFFFFF00 :: 32 word) = NOT (mask 8)"
  "(0xFFFF0000 :: 32 word) = NOT (mask 16)"
  "(0xFF000000 :: 32 word) = NOT (mask 24)"
  by (simp_all add: mask_eq_decr_exp)

lemma sign_tests:
  "((raw :: 32 word) AND 0x80 = 0) = (\<not> bit raw 7)"
  "(raw AND 0x8000 = 0) = (\<not> bit raw 15)"
  "(raw AND 0x800000 = 0) = (\<not> bit raw 23)"
  using and_exp_eq_0_iff_not_bit [of raw 7] and_exp_eq_0_iff_not_bit [of raw 15]
    and_exp_eq_0_iff_not_bit [of raw 23]
  by simp_all

lemma ucast_or_not_mask:
  "(ucast ((raw :: 32 word) OR NOT (mask 8)) :: 8 word) = ucast raw"
  "(ucast (raw OR NOT (mask 16)) :: 16 word) = ucast raw"
  by (rule bit_word_eqI; auto simp: bit_simps)+

lemma convert_int8:
  "fld_type field = INT8 \<Longrightarrow>
     signed_value (convert_raw_value raw field) = Some (signed_take_bit 7 (uint raw))"
  by (simp add: convert_raw_value_def signed_value_def sign_constants ucast_or_not_mask sint_ucast8)

lemma convert_int16:
  "fld_type field = INT16 \<Longrightarrow>
     signed_value (convert_raw_value raw field) = Some (signed_take_bit 15 (uint raw))"
  by (simp add: convert_raw_value_def signed_value_def sign_constants ucast_or_not_mask sint_ucast16)

lemma convert_int24:
  "fld_type field = INT24 \<Longrightarrow>
     signed_value (convert_raw_value raw field) =
       Some (if bit raw 23 then sint (raw OR NOT (mask 24)) else sint raw)"
  by (simp add: convert_raw_value_def signed_value_def sign_constants sign_tests)

lemma convert_int32:
  "fld_type field = INT32 \<Longrightarrow> signed_value (convert_raw_value raw field) = Some (sint raw)"
  by (simp add: convert_raw_value_def signed_value_def)

text \<open>
  C3, as the code has it.  A signed field is sign-extended from the width of its
  type (8 for I8, 16 for I16, 24 for I24, 32 for I32), whatever its declared \<open>bits\<close>:
  when bit \<open>w - 1\<close> of the raw value is set the decoded value is the raw value OR'ed
  with \<open>~((1 << w) - 1)\<close> read as two's complement, and when it is clear and the raw
  value fits \<open>w\<close> bits the decoded value is the raw value.
\<close>

theorem convert_raw_value_sign_extends_from_type_width:
  assumes "type_width (fld_type field) = Some w"
  shows "(bit raw (w - 1) \<longrightarrow>
            signed_value (convert_raw_value raw field) = Some (sign_extend_from w raw))
       \<and> (\<not> bit raw (w - 1) \<and> uint raw < 2 ^ w \<longrightarrow>
            signed_value (convert_raw_value raw field) = Some (uint raw))"
proof -
  from assms consider
      (i8) "fld_type field = INT8" "w = 8" | (i16) "fld_type field = INT16" "w = 16"
    | (i24) "fld_type field = INT24" "w = 24" | (i32) "fld_type field = INT32" "w = 32"
    by (auto simp: type_width_def split: FieldType.splits)
  then show ?thesis
  proof cases
    case i8
    then show ?thesis
      using sint_or_not_mask [of raw 8] signed_take_bit_uint_self [of raw 8]
      by (simp add: convert_int8 sign_extend_from_def)
  next
    case i16
    then show ?thesis
      using sint_or_not_mask [of raw 16] signed_take_bit_uint_self [of raw 16]
      by (simp add: convert_int16 sign_extend_from_def)
  next
    case i24
    have "sint raw = uint raw" if "uint raw < 2 ^ 24"
    proof -
      have "- (2 ^ 31) \<le> (0 :: int)" by simp
      also have "0 \<le> uint raw" by simp
      finally have "- (2 ^ 31) \<le> uint raw" .
      moreover from that have "uint raw < 2 ^ 31" by simp
      ultimately have "signed_take_bit 31 (uint raw) = uint raw"
        by (rule signed_take_bit_int_eq_self)
      then show ?thesis by (simp add: sint_uint)
    qed
    with i24 show ?thesis
      by (simp add: convert_int24 sign_extend_from_def)
  next
    case i32
    have "NOT (mask 32 :: 32 word) = 0"
      by (simp add: mask_eq_decr_exp)
    with i32 show ?thesis
      using signed_take_bit_uint_self [of raw 32]
      by (simp add: convert_int32 sign_extend_from_def sint_uint)
  qed
qed

text \<open>E2: an I8 field of 8 bits decodes the raw byte 0xFF to -1.\<close>

theorem convert_raw_value_int8_witness:
  "signed_value (convert_raw_value 0xFF (plain_field ''RANGE_ERROR'' INT8 8 NAUTICAL_MILES))
     = Some (- 1)"
proof -
  have v: "sint ((0xFF :: 32 word) OR NOT (mask 8)) = - 1" by code_simp
  have b: "bit (0xFF :: 32 word) (8 - 1)" by simp
  show ?thesis
    using convert_raw_value_sign_extends_from_type_width
            [of "plain_field ''RANGE_ERROR'' INT8 8 NAUTICAL_MILES" 8 "0xFF"] v b
    by (simp add: plain_field_def type_width_def sign_extend_from_def)
qed

text \<open>
  C3, as the specification states it, fails for a declared width below the type's:
  an I16 field of 12 bits with raw value 0x800 has its top bit set, yet it decodes to
  2048, not to the -2048 that sign extension from 12 bits gives.
\<close>

theorem convert_raw_value_narrow_counterexample:
  "fld_type (plain_field ''ALT'' INT16 12 NONE) = INT16
   \<and> bits (plain_field ''ALT'' INT16 12 NONE) = 12
   \<and> bit (0x800 :: 32 word) (12 - 1)
   \<and> signed_value (convert_raw_value 0x800 (plain_field ''ALT'' INT16 12 NONE)) = Some 2048
   \<and> sign_extend_from 12 0x800 = - 2048"
  by code_simp

section \<open>Repetitive items\<close>

definition rep_item :: DataItem where
  "rep_item = \<lparr>item_id = ''REP'', item_name = ''Repetitive item'',
     format = REPETITIVE, item_length = Some 2,
     item_fields = [plain_field ''HI'' UINT8 8 NONE, plain_field ''LO'' UINT8 8 NONE]\<rparr>"

text \<open>
  C4.  The specification's scenario E4: a repetitive item of length 2 on the bytes
  03 AA BB CC DD EE FF should read the count 3, consume the six bytes after it and
  give the three groups AA BB, CC DD and EE FF.  The code takes \<open>start_position\<close>
  before it reads the count and parses the declared fields once: the only group is
  03 AA, the count byte being its first byte, and the cursor stops at 6, on FF.
\<close>

theorem parse_data_item_repetitive:
  "parse_data_item rep_item (ctx_of [0x03, 0xAA, 0xBB, 0xCC, 0xDD, 0xEE, 0xFF]) =
     Some (valid_item ''REP'' ''Repetitive item''
             [valid_field ''HI'' (U8 0x03) NONE, valid_field ''LO'' (U8 0xAA) NONE],
           (ctx_of [0x03, 0xAA, 0xBB, 0xCC, 0xDD, 0xEE, 0xFF])\<lparr>position := 6\<rparr>)"
  by code_simp

section \<open>Field failures inside an item\<close>



definition item_context :: "ParseContext \<Rightarrow> nat \<Rightarrow> ParseContext" where
  "item_context ctx bytes_to_read =
     \<lparr>ctx_data = ctx_data ctx, ctx_base = ctx_base ctx + position ctx,
      ctx_size = bytes_to_read, position = 0\<rparr>"













section \<open>Reads past the end of the buffer\<close>

text \<open>
  C6.  A fixed item whose declared length exceeds the bytes left should fail with an
  error instead of being read through a sub-cursor that extends past the input.  In
  the block 02 00 05 80 00 the item I002/010 (two bytes) starts at offset 4 with one
  byte left.  The \<open>FIXED\<close> case checks nothing, the item context is given the size 2,
  and the read of SIC passes \<open>has_data\<close> and fetches the byte at offset 5 of a
  five-byte vector.
\<close>

theorem parse_data_item_fixed_overrun:
  "determine_bytes_to_read i002_010 ((ctx_of [0x02, 0x00, 0x05, 0x80, 0x00])\<lparr>position := 4\<rparr>) =
     Some (Ok 2, (ctx_of [0x02, 0x00, 0x05, 0x80, 0x00])\<lparr>position := 4\<rparr>)
   \<and> parse_data_item i002_010 ((ctx_of [0x02, 0x00, 0x05, 0x80, 0x00])\<lparr>position := 4\<rparr>) = None"
  by code_simp

section \<open>The FSPEC ceiling\<close>

text \<open>
  The bytes between the cursor and the end of the context, the FX test of the FSPEC
  loop, and the contexts that lie inside their vector.
\<close>

definition fx_set :: "byte \<Rightarrow> bool" where
  "fx_set b = (b AND 1 \<noteq> 0)"

definition remaining :: "ParseContext \<Rightarrow> byte list" where
  "remaining ctx =
     take (ctx_size ctx - position ctx) (drop (ctx_base ctx + position ctx) (ctx_data ctx))"

definition in_buffer :: "ParseContext \<Rightarrow> bool" where
  "in_buffer ctx = (ctx_base ctx + ctx_size ctx \<le> length (ctx_data ctx))"

lemma remaining_empty: "\<not> has_data ctx 1 \<Longrightarrow> remaining ctx = []"
  by (simp add: remaining_def has_data_def)

lemma remaining_read:
  assumes "in_buffer ctx" "has_data ctx 1"
  shows "\<exists>b. read_uint8 ctx = Some (Ok b, ctx\<lparr>position := position ctx + 1\<rparr>) \<and>
             remaining ctx = b # remaining (ctx\<lparr>position := position ctx + 1\<rparr>)"
proof -
  let ?i = "ctx_base ctx + position ctx"
  from assms have lt: "?i < length (ctx_data ctx)" and ps: "position ctx < ctx_size ctx"
    by (simp_all add: in_buffer_def has_data_def)
  then have "drop ?i (ctx_data ctx) = ctx_data ctx ! ?i # drop (Suc ?i) (ctx_data ctx)"
    by (simp add: Cons_nth_drop_Suc)
  moreover from ps obtain k where k: "ctx_size ctx - position ctx = Suc k"
    by (cases "ctx_size ctx - position ctx") auto
  moreover from k have "ctx_size ctx - Suc (position ctx) = k" by simp
  ultimately have "remaining ctx = ctx_data ctx ! ?i # remaining (ctx\<lparr>position := position ctx + 1\<rparr>)"
    by (simp add: remaining_def)
  moreover from assms lt have "read_uint8 ctx = Some (Ok (ctx_data ctx ! ?i), ctx\<lparr>position := position ctx + 1\<rparr>)"
    by (simp add: read_uint8_def data_at_def)
  ultimately show ?thesis by blast
qed

lemma fspec_loop_spec:
  "in_buffer ctx \<Longrightarrow> length acc < 16 \<Longrightarrow>
   fspec_loop ctx acc =
     (let w = remaining ctx; n = length (takeWhile fx_set w)
      in if 16 \<le> length acc + n
         then Some (Ok (acc @ take (16 - length acc) w),
                    ctx\<lparr>position := position ctx + (16 - length acc)\<rparr>)
         else if n < length w
         then Some (Ok (acc @ take (n + 1) w), ctx\<lparr>position := position ctx + (n + 1)\<rparr>)
         else Some (Throw ''Insufficient data for FSPEC'', ctx\<lparr>position := position ctx + n\<rparr>))"
proof (induction ctx acc rule: fspec_loop.induct)
  case (1 ctx fspec)
  show ?case
  proof (cases "has_data ctx 1")
    case False
    with "1.prems"(2) show ?thesis
      by (subst fspec_loop.simps) (simp add: remaining_empty)
  next
    case True
    let ?c1 = "ctx\<lparr>position := position ctx + 1\<rparr>"
    from remaining_read [OF "1.prems"(1) True] obtain b where
      rd: "read_uint8 ctx = Some (Ok b, ?c1)" and rem: "remaining ctx = b # remaining ?c1"
      by blast
    have ib: "in_buffer ?c1" using "1.prems"(1) by (simp add: in_buffer_def)
    show ?thesis
    proof (cases "b AND 1 = 0")
      case z: True
      with True rd rem "1.prems"(2) show ?thesis
        by (subst fspec_loop.simps) (simp add: fx_set_def)
    next
      case nz: False
      show ?thesis
      proof (cases "length (fspec @ [b]) < 16")
        case lt: True
        from True have nn: "\<not> \<not> has_data ctx 1" by simp
        note IH = "1.IH" [OF nn rd refl refl nz lt ib lt]
        from True rd nz lt have "fspec_loop ctx fspec = fspec_loop ?c1 (fspec @ [b])"
          by (subst fspec_loop.simps) simp
        moreover from lt have "16 - length fspec = Suc (15 - length fspec)" by simp
        ultimately show ?thesis
          using IH rem nz lt by (simp add: fx_set_def Let_def)
      next
        case ge: False
        with "1.prems"(2) have l: "length fspec = 15" by simp
        with True rd nz ge rem show ?thesis
          by (subst fspec_loop.simps) (simp add: fx_set_def)
      qed
    qed
  qed
qed

text \<open>
  C7, as the code has it.  FSPEC parsing reads bytes while the FX bit of the byte
  just read is 1, but never more than 16.  With \<open>n\<close> the number of leading bytes
  with FX set: when \<open>n\<close> is 16 or more the first 16 bytes are returned without an
  error and the cursor stands on the 17th; otherwise the \<open>n\<close> bytes and the byte that
  ends the chain are returned; and when the data ends inside the chain the parser
  throws.
\<close>

theorem parse_field_specification_cap:
  assumes "in_buffer ctx"
  shows "parse_field_specification ctx =
     (let w = remaining ctx; n = length (takeWhile fx_set w)
      in if 16 \<le> n
         then Some (Ok (take 16 w), ctx\<lparr>position := position ctx + 16\<rparr>)
         else if n < length w
         then Some (Ok (take (n + 1) w), ctx\<lparr>position := position ctx + (n + 1)\<rparr>)
         else Some (Throw ''Insufficient data for FSPEC'', ctx\<lparr>position := position ctx + n\<rparr>))"
  using fspec_loop_spec [OF assms, of "[]"]
  by (simp add: parse_field_specification_def Let_def)

text \<open>
  The theorem at a chain of 17 bytes that follows a block header: the 16 bytes 0xFF
  are the FSPEC, and the cursor is left on the byte 0xFE at offset 19.
\<close>

definition long_fspec_block :: "byte list" where
  "long_fspec_block = [0x02, 0x00, 0x14] @ replicate 16 0xFF @ [0xFE]"

theorem parse_field_specification_cap_witness:
  "parse_field_specification ((ctx_of long_fspec_block)\<lparr>position := 3\<rparr>) =
     Some (Ok (replicate 16 0xFF), (ctx_of long_fspec_block)\<lparr>position := 19\<rparr>)"
proof -
  let ?ctx = "(ctx_of long_fspec_block)\<lparr>position := 3\<rparr>"
  have ib: "in_buffer ?ctx" by code_simp
  have "(let w = remaining ?ctx; n = length (takeWhile fx_set w)
         in if 16 \<le> n
            then Some (Ok (take 16 w), ?ctx\<lparr>position := position ?ctx + 16\<rparr>)
            else if n < length w
            then Some (Ok (take (n + 1) w), ?ctx\<lparr>position := position ?ctx + (n + 1)\<rparr>)
            else Some (Throw ''Insufficient data for FSPEC'',
                       ?ctx\<lparr>position := position ?ctx + n\<rparr>)) =
        Some (Ok (replicate 16 0xFF), (ctx_of long_fspec_block)\<lparr>position := 19\<rparr>)"
    by code_simp
  with parse_field_specification_cap [OF ib] show ?thesis by simp
qed

text \<open>
  C7, as the specification states it, fails: a chain of 17 bytes whose first 16 have
  FX set is not rejected.  Its first 16 bytes are returned as the FSPEC.
\<close>

theorem parse_field_specification_chain17_counterexample:
  "parse_field_specification (ctx_of (replicate 16 0x01 @ [0x00])) =
     Some (Ok (replicate 16 0x01), (ctx_of (replicate 16 0x01 @ [0x00]))\<lparr>position := 16\<rparr>)"
  by code_simp

section \<open>The header-only block\<close>

text \<open>
  \<open>decode_block\<close> never sets the block's \<open>valid\<close> flag to true: the only assignment
  is the \<open>false\<close> of the short-input path.
\<close>

lemma decode_block_valid_never_true:
  "decode_block dec bs = Some block \<Longrightarrow> blk_valid block \<noteq> Some True"
  by (auto simp: decode_block_def Let_def split: if_splits option.splits outcome.splits)

text \<open>
  Every input that declares the length 3 for a registered category decodes to zero
  records, with the flag unassigned.
\<close>

lemma decode_block_declared_length_3:
  assumes "3 \<le> length bs" "bs ! 1 = 0" "bs ! 2 = 3" "categories dec (bs ! 0) = Some cat"
  shows "decode_block dec bs =
           Some \<lparr>blk_category = Some (bs ! 0), blk_length = Some 3, blk_valid = None,
                 messages = []\<rparr>"
proof -
  let ?c0 = "\<lparr>ctx_data = bs, ctx_base = 0, ctx_size = length bs, position = 0\<rparr>"
  from assms(1) have r8: "read_uint8 ?c0 = Some (Ok (bs ! 0), ?c0\<lparr>position := 1\<rparr>)"
    by (auto simp: read_uint8_def has_data_def data_at_def)
  from assms(3) have b2: "bs ! Suc (Suc 0) = 3" by (simp add: numeral_2_eq_2)
  from assms(1,2) b2 have r16: "read_uint16 (?c0\<lparr>position := 1\<rparr>) = Some (Ok 3, ?c0\<lparr>position := 3\<rparr>)"
    by (auto simp: read_uint16_def has_data_def data_at_def)
  have ml: "message_loop cat 3 (?c0\<lparr>position := 3\<rparr>) [] = Some []"
    by (subst message_loop.simps) simp
  from assms(1,4) r8 r16 ml show ?thesis
    by (simp add: decode_block_def Let_def)
qed

text \<open>
  C8.  A block whose declared length is 3 should decode to zero records with its
  \<open>valid\<close> flag true.  For the bytes 02 00 03 with CAT002 registered the code returns
  zero records, but the flag is left unassigned: its value is indeterminate.
\<close>

theorem decode_block_header_only:
  "decode_block (cat002_decoder False) [0x02, 0x00, 0x03] =
     Some \<lparr>blk_category = Some 2, blk_length = Some 3, blk_valid = None, messages = []\<rparr>"
  by code_simp

section \<open>Conditional validation rules\<close>

lemma validate_conditional_fields_always:
  "validate_conditional_fields message cat = True"
proof -
  have "conditional_loop message rules = True" for rules
    by (induction rules) simp_all
  then show ?thesis by (simp add: validate_conditional_fields_def)
qed

definition sector_crossing_without_sector :: AsterixMessage where
  "sector_crossing_without_sector =
     valid_record
       [valid_item ''I002/010'' ''Data Source Identifier''
          [valid_field ''SAC'' (U8 0x00) NONE, valid_field ''SIC'' (U8 0x10) NONE],
        valid_item ''I002/000'' ''Message Type''
          [valid_field ''MESSAGE_TYPE'' (U8 0x02) NONE]]"

text \<open>
  C9.  Validation should enforce the conditional rules: a record that satisfies a
  rule's condition and lacks the rule's item must not pass.  CAT002 requires I002/020
  when the message type is 2.  The block 02 00 07 C0 00 10 02 decodes to a sector
  crossing record (message type 2) without I002/020, and \<open>validate_message\<close> accepts
  it in strict mode: the loop over the conditional rules has an empty body.
\<close>

theorem validate_message_conditional_ignored:
  "decode_block (cat002_decoder True) [0x02, 0x00, 0x07, 0xC0, 0x00, 0x10, 0x02] =
     Some \<lparr>blk_category = Some 2, blk_length = Some 7, blk_valid = None,
           messages = [sector_crossing_without_sector]\<rparr>
   \<and> validate_message (cat002_decoder True) sector_crossing_without_sector = True"
  by code_simp

section \<open>Termination and totality of the block decoder\<close>

text \<open>
  The block loop appends at most one message per byte left in the context, so a
  decoded block holds at most \<open>length bs - 3\<close> messages.
\<close>

lemma message_loop_bound:
  "message_loop cat len ctx msgs = Some r \<Longrightarrow>
     length r \<le> length msgs + (ctx_size ctx - position ctx)"
proof (induction cat len ctx msgs rule: message_loop.induct)
  case (1 cat len ctx msgs)
  show ?case
  proof (cases "position ctx < unat len \<and> has_data ctx 1")
    case False
    with "1.prems" show ?thesis
      by (subst (asm) message_loop.simps) auto
  next
    case True
    with "1.prems" obtain m c1 where
      d: "decode_message_internal cat ctx = Some (m, c1)" and
      r: "message_loop cat len c1 (msgs @ [m]) = Some r"
      by (subst (asm) message_loop.simps) (auto split: option.splits)
    from decode_message_internal_frame [OF d] True
    have "ctx_size c1 = ctx_size ctx" "position ctx < position c1"
      by (auto simp: same_buffer_def)
    moreover from True have "position ctx < ctx_size ctx"
      by (simp add: has_data_def)
    moreover from "1.IH" [OF True d refl r]
    have "length r \<le> length (msgs @ [m]) + (ctx_size c1 - position c1)" .
    ultimately show ?thesis by simp
  qed
qed

lemma decode_block_message_count:
  assumes "decode_block dec bs = Some block"
  shows "length (messages block) \<le> length bs - 3"
proof (cases "messages block = []")
  case True
  then show ?thesis by simp
next
  case False
  with assms obtain cat len c1 c2 b where
    "read_uint8 \<lparr>ctx_data = bs, ctx_base = 0, ctx_size = length bs, position = 0\<rparr> =
       Some (Ok b, c1)"
    "read_uint16 c1 = Some (Ok len, c2)"
    "message_loop cat len c2 [] = Some (messages block)"
    by (auto simp: decode_block_def Let_def
             split: if_splits option.splits outcome.splits)
  moreover from this(1) have "ctx_size c1 = length bs" "position c1 = 1"
    by (auto simp: read_uint8_def split: if_splits option.splits)
  moreover from this calculation(2) have "ctx_size c2 = length bs" "position c2 = 3"
    by (auto simp: read_uint16_def split: if_splits option.splits)
  ultimately show ?thesis
    using message_loop_bound [of cat len c2 "[]" "messages block"] by simp
qed

text \<open>
  C10.  \<open>decode_block\<close> should return a block for every input and every registry.
  It does terminate, it lets no exception out, and its loop is bounded as the lemmas
  above show; but on the block 02 00 05 80 00 with CAT002 registered it reads one byte
  past the end of its input (the read of C6), which is undefined behaviour and not a
  returned block.
\<close>

theorem decode_block_out_of_range:
  "decode_block (cat002_decoder False) [0x02, 0x00, 0x05, 0x80, 0x00] = None"
  by code_simp

end
